theory Spec2Isabelle
  imports Main "HOL-Library.Word" "HOL-Library.Multiset"
begin

section \<open>Strings, numbers and JavaScript values\<close>

text \<open>
  The server of \<^verbatim>\<open>code_sample.ts\<close> is an Express application. Its handlers work on
  JavaScript strings, on numbers, and on objects that arrive as parsed JSON and are typed
  \<^verbatim>\<open>any\<close>. Strings are modelled as lists of 8-bit characters (code units below 256),
  numbers as integers, and an object as the list of its own properties in iteration order.
\<close>

type_synonym byte = "8 word"

definition toLowerChar :: "char \<Rightarrow> char" where
  "toLowerChar c =
     (let n = (of_char c :: nat) in if 65 \<le> n \<and> n \<le> 90 then char_of (n + 32) else c)"

definition toLowerCase :: "string \<Rightarrow> string" where
  "toLowerCase s = map toLowerChar s"

fun startsWith :: "string \<Rightarrow> string \<Rightarrow> bool" where
  "startsWith s [] = True"
| "startsWith [] (p # ps) = False"
| "startsWith (c # cs) (p # ps) = (c = p \<and> startsWith cs ps)"

text \<open>\<^verbatim>\<open>s.includes(t)\<close>: \<open>t\<close> occurs in \<open>s\<close> as a contiguous run.\<close>

fun str_includes :: "string \<Rightarrow> string \<Rightarrow> bool" where
  "str_includes [] t = (t = [])"
| "str_includes (c # cs) t = (startsWith (c # cs) t \<or> str_includes cs t)"

text \<open>\<^verbatim>\<open>s.split(sep)\<close> for a one-character separator: never the empty array.\<close>

fun str_split :: "char \<Rightarrow> string \<Rightarrow> string list" where
  "str_split sep [] = [[]]"
| "str_split sep (c # cs) =
     (if c = sep then [] # str_split sep cs
      else (case str_split sep cs of [] \<Rightarrow> [[c]] | p # ps \<Rightarrow> (c # p) # ps))"

text \<open>Decimal rendering of a number inside a template string.\<close>

fun show_nat :: "nat \<Rightarrow> string" where
  "show_nat n =
     (if n < 10 then [char_of (48 + n)]
      else show_nat (n div 10) @ [char_of (48 + n mod 10)])"

declare show_nat.simps [simp del]

definition show_int :: "int \<Rightarrow> string" where
  "show_int i = (if i < 0 then CHR ''-'' # show_nat (nat (- i)) else show_nat (nat i))"






text \<open>
  Values of type \<^verbatim>\<open>any\<close>. \<open>JArrayBuffer\<close> and \<open>JBuffer\<close> are the two binary classes the
  download handler tests for with \<^verbatim>\<open>instanceof ArrayBuffer\<close> and \<^verbatim>\<open>Buffer.isBuffer\<close>.
\<close>

datatype jsval =
    JUndefined
  | JNull
  | JBool bool
  | JNum int
  | JStr string
  | JArr "jsval list"
  | JObj "(string \<times> jsval) list"
  | JArrayBuffer "byte list"
  | JBuffer "byte list"

text \<open>What \<^verbatim>\<open>if (v)\<close>, \<^verbatim>\<open>!v\<close> and \<^verbatim>\<open>v || w\<close> test.\<close>

fun truthy :: "jsval \<Rightarrow> bool" where
  "truthy JUndefined = False"
| "truthy JNull = False"
| "truthy (JBool b) = b"
| "truthy (JNum n) = (n \<noteq> 0)"
| "truthy (JStr s) = (s \<noteq> [])"
| "truthy (JArr xs) = True"
| "truthy (JObj kvs) = True"
| "truthy (JArrayBuffer bs) = True"
| "truthy (JBuffer bs) = True"

definition js_or :: "jsval \<Rightarrow> jsval \<Rightarrow> jsval" where
  "js_or a b = (if truthy a then a else b)"

text \<open>
  Property read \<^verbatim>\<open>v?.f\<close>, and \<^verbatim>\<open>v.f\<close> on a value that is not null or undefined: the
  own property of an object, \<^verbatim>\<open>undefined\<close> otherwise.
\<close>

fun get_prop :: "string \<Rightarrow> jsval \<Rightarrow> jsval" where
  "get_prop f (JObj kvs) = (case map_of kvs f of None \<Rightarrow> JUndefined | Some v \<Rightarrow> v)"
| "get_prop f v = JUndefined"

text \<open>A request field that may be missing, as \<^verbatim>\<open>if (field)\<close> reads it.\<close>

fun present :: "string option \<Rightarrow> bool" where
  "present None = False"
| "present (Some s) = (s \<noteq> [])"

datatype js_error = Error string | TypeError string

fun error_message :: "js_error \<Rightarrow> string" where
  "error_message (Error m) = m"
| "error_message (TypeError m) = m"

section \<open>Documents, responses and effects\<close>

record document =
  doc_id :: string
  doc_name :: string
  uploadedAt :: int
  doc_fields :: "(string \<times> jsval) list"

record version_info =
  versionNumber :: int
  totalVersions :: nat
  isCurrent :: bool
  vi_uploadedAt :: int

text \<open>
  A JSON body is either the error shape \<^verbatim>\<open>{error, message?, totalVersions?}\<close> or a
  document spread together with its \<^verbatim>\<open>versionInfo\<close>.
\<close>

datatype body =
    ErrorBody string "string option" "nat option"
  | VersionBody document version_info

datatype response =
    Json nat body
  | Send "(string \<times> string) list" "byte list"

section \<open>Version resolution\<close>



section \<open>The export download handler: data\<close>

text \<open>
  The body of \<^verbatim>\<open>POST /api/data/download\<close>. A field of the body that is not sent is
  \<open>None\<close>; \<^verbatim>\<open>exportType\<close> then takes its default.
\<close>

record download_request =
  req_designId :: "string option"
  req_shapediverEndpoint :: "string option"
  req_exportType :: "string option"
  req_exportNameContains :: "string option"
  req_contentType :: "string option"
  req_bypassCache :: bool

record cache_key =
  key_designId :: string
  key_exportType :: string
  key_exportNameContains :: "string option"
  key_contentType :: "string option"

record cache_result =
  hit :: bool
  buffer :: "byte list option"
  cached_contentType :: "string option"
  cached_filename :: "string option"

record param_def =
  param_name :: "string option"

record export_def =
  export_name :: "string option"
  export_type :: "string option"

record session_data =
  sessionId :: string
  parameters :: "(string \<times> param_def) list option"
  exports :: "(string \<times> export_def) list option"

record export_request =
  rq_parameters :: "(string \<times> string) list"
  rq_exports :: "string list"

record export_results =
  res_exports :: "(string \<times> jsval) list option"

record fetch_response =
  ok :: bool
  status :: nat
  statusText :: string
  arrayBuffer :: "byte list"

text \<open>
  The calls that leave the handler, in the order they are made. The session is always
  opened with the ticket the server holds, so the call is named by its endpoint alone.
\<close>

datatype event =
    CacheGet cache_key
  | CreateSession string
  | ComputeExports string string export_request
  | Fetch jsval
  | CachePut cache_key "byte list" string string
  | ConsoleError string
  | ConsoleWarn string

text \<open>
  The collaborators. A rejected promise or a thrown exception is \<open>Inl\<close>; a rejected
  cache write is \<open>Some\<close> of its error. \<open>from_base64\<close> is \<^verbatim>\<open>Buffer.from(s, 'base64')\<close>.
\<close>

record env =
  getCachedExport :: "cache_key \<Rightarrow> js_error + cache_result"
  putCachedExport :: "cache_key \<Rightarrow> byte list \<Rightarrow> string \<Rightarrow> string \<Rightarrow> js_error option"
  createSessionByTicket :: "string \<Rightarrow> js_error + session_data"
  computeExports :: "string \<Rightarrow> string \<Rightarrow> export_request \<Rightarrow> js_error + export_results"
  fetch :: "jsval \<Rightarrow> js_error + fetch_response"
  from_base64 :: "string \<Rightarrow> byte list"

definition RENDER_DEPLOYMENT_URI :: string where
  "RENDER_DEPLOYMENT_URI = ''https://mongo-sd-server.onrender.com''"

definition or_empty :: "string option \<Rightarrow> string" where
  "or_empty s = (case s of None \<Rightarrow> [] | Some t \<Rightarrow> t)"

text \<open>What the handler destructures from the body, with the defaults it applies.\<close>

definition requested_exportType :: "download_request \<Rightarrow> string" where
  "requested_exportType rq = (case req_exportType rq of None \<Rightarrow> ''download'' | Some t \<Rightarrow> t)"

definition endpoint_of :: "download_request \<Rightarrow> string" where
  "endpoint_of rq =
     (if present (req_shapediverEndpoint rq) then or_empty (req_shapediverEndpoint rq)
      else ''https://sdr8euc1.eu-central-1.shapediver.com'')"

text \<open>
  The key of the cache lookup carries the content type of the request; the key of the
  cache write carries the content type that was sent.
\<close>

definition probe_key :: "download_request \<Rightarrow> cache_key" where
  "probe_key rq =
     \<lparr> key_designId = or_empty (req_designId rq),
       key_exportType = requested_exportType rq,
       key_exportNameContains = req_exportNameContains rq,
       key_contentType = req_contentType rq \<rparr>"

definition store_key :: "download_request \<Rightarrow> string \<Rightarrow> cache_key" where
  "store_key rq ct =
     \<lparr> key_designId = or_empty (req_designId rq),
       key_exportType = requested_exportType rq,
       key_exportNameContains = req_exportNameContains rq,
       key_contentType = Some ct \<rparr>"

section \<open>Cache probe\<close>

definition dquote :: string where
  "dquote = [CHR 0x22]"

definition respond_hit :: "cache_result \<Rightarrow> byte list \<Rightarrow> response" where
  "respond_hit cached buf =
     Send ([(''X-Cache'', ''HIT''),
            (''Content-Type'',
               (if present (cached_contentType cached) then or_empty (cached_contentType cached)
                else ''application/octet-stream''))]
           @ (if present (cached_filename cached)
              then [(''Content-Disposition'',
                     ''attachment; filename='' @ dquote @ or_empty (cached_filename cached) @ dquote)]
              else [])
           @ [(''Content-Length'', show_nat (length buf))])
          buf"

section \<open>Parameter and export discovery\<close>

fun find_moda_json :: "(string \<times> param_def) list \<Rightarrow> string option" where
  "find_moda_json [] = None"
| "find_moda_json ((paramId, paramDef) # rest) =
     (if param_name paramDef = Some ''moda-json'' then Some paramId else find_moda_json rest)"

definition export_matches :: "string \<Rightarrow> string option \<Rightarrow> export_def \<Rightarrow> bool" where
  "export_matches exportType exportNameContains e =
     (let typeMatches = (toLowerCase (or_empty (export_type e)) = toLowerCase exportType);
          nameMatches =
            (if present exportNameContains
             then str_includes (toLowerCase (or_empty (export_name e)))
                    (toLowerCase (or_empty exportNameContains))
             else True)
      in typeMatches \<and> nameMatches)"

fun select_export ::
  "string \<Rightarrow> string option \<Rightarrow> (string \<times> export_def) list \<Rightarrow> (string \<times> string) option" where
  "select_export exportType exportNameContains [] = None"
| "select_export exportType exportNameContains ((exportId, e) # rest) =
     (if export_matches exportType exportNameContains e
      then Some (exportId, if present (export_name e) then or_empty (export_name e) else exportType)
      else select_export exportType exportNameContains rest)"

definition export_not_found :: "string \<Rightarrow> string option \<Rightarrow> response" where
  "export_not_found exportType exportNameContains =
     Json 404 (ErrorBody ''Export not found''
       (Some (''No export matched type='' @ dquote @ exportType @ dquote
              @ (if present exportNameContains
                 then '' and nameContains='' @ dquote @ or_empty exportNameContains @ dquote
                 else [])))
       None)"

section \<open>Payload extraction\<close>

text \<open>
  The callback of \<^verbatim>\<open>content.find\<close>. Reading \<^verbatim>\<open>c.contentType\<close> of a null entry throws,
  and so does \<^verbatim>\<open>toLowerCase\<close> on a declared content type that is not a string; both end
  in the handler's \<^verbatim>\<open>catch\<close>.
\<close>

fun content_type_matches :: "string \<Rightarrow> jsval \<Rightarrow> js_error + bool" where
  "content_type_matches contentType JUndefined =
     Inl (TypeError ''Cannot read properties of undefined'')"
| "content_type_matches contentType JNull =
     Inl (TypeError ''Cannot read properties of null'')"
| "content_type_matches contentType c =
     (case js_or (get_prop ''contentType'' c) (JStr []) of
        JStr declared \<Rightarrow> Inr (toLowerCase declared = toLowerCase contentType)
      | _ \<Rightarrow> Inl (TypeError ''toLowerCase is not a function''))"

fun js_find :: "string \<Rightarrow> jsval list \<Rightarrow> js_error + jsval" where
  "js_find contentType [] = Inr JUndefined"
| "js_find contentType (c # cs) =
     (case content_type_matches contentType c of
        Inl e \<Rightarrow> Inl e
      | Inr matches \<Rightarrow> if matches then Inr c else js_find contentType cs)"

definition pick_content :: "string option \<Rightarrow> jsval list \<Rightarrow> js_error + jsval" where
  "pick_content contentType content =
     (if present contentType then js_find (or_empty contentType) content
      else Inr (case content of [] \<Rightarrow> JUndefined | c # _ \<Rightarrow> c))"

text \<open>
  An inline payload of a picked content entry. \<^verbatim>\<open>Buffer.from(s, 'base64')\<close> does not
  throw on a string, so the \<^verbatim>\<open>catch\<close> that would read the string as binary is never
  entered. A payload of any other type leaves the buffer empty.
\<close>

definition decode_entry_payload :: "(string \<Rightarrow> byte list) \<Rightarrow> jsval \<Rightarrow> byte list option" where
  "decode_entry_payload b64 payload =
     (case payload of
        JStr s \<Rightarrow>
          if startsWith s ''data:''
          then Some (b64 (case str_split CHR '','' s of _ # part # _ \<Rightarrow> part | _ \<Rightarrow> []))
          else Some (b64 s)
      | JArrayBuffer bs \<Rightarrow> Some bs
      | JBuffer bs \<Rightarrow> Some bs
      | _ \<Rightarrow> None)"

text \<open>An inline payload carried by the result object itself.\<close>

definition decode_direct_payload :: "(string \<Rightarrow> byte list) \<Rightarrow> jsval \<Rightarrow> byte list option" where
  "decode_direct_payload b64 payload =
     (case payload of
        JStr s \<Rightarrow> Some (b64 s)
      | JArrayBuffer bs \<Rightarrow> Some bs
      | JBuffer bs \<Rightarrow> Some bs
      | _ \<Rightarrow> None)"

record extraction =
  fileBuffer :: "byte list option"
  pickedContent :: jsval
  downloadUrl :: jsval

definition extract_payload ::
  "(string \<Rightarrow> byte list) \<Rightarrow> string option \<Rightarrow> jsval \<Rightarrow> js_error + extraction" where
  "extract_payload b64 contentType selectedExportData =
     (case (if truthy selectedExportData then get_prop ''content'' selectedExportData
            else JUndefined) of
        JArr content \<Rightarrow>
          (case pick_content contentType content of
             Inl e \<Rightarrow> Inl e
           | Inr picked \<Rightarrow>
               (let payload = js_or (get_prop ''data'' picked) (get_prop ''content'' picked) in
                if truthy payload then
                  Inr \<lparr> fileBuffer = decode_entry_payload b64 payload,
                        pickedContent = picked, downloadUrl = JNull \<rparr>
                else if truthy (get_prop ''href'' picked) then
                  Inr \<lparr> fileBuffer = None, pickedContent = picked,
                        downloadUrl = get_prop ''href'' picked \<rparr>
                else
                  Inr \<lparr> fileBuffer = None, pickedContent = picked, downloadUrl = JNull \<rparr>))
      | _ \<Rightarrow>
          if truthy selectedExportData then
            (let payload = js_or (get_prop ''data'' selectedExportData)
                             (get_prop ''content'' selectedExportData);
                 link = js_or (get_prop ''href'' selectedExportData)
                          (js_or (get_prop ''url'' selectedExportData)
                             (js_or (get_prop ''downloadUrl'' selectedExportData)
                                (get_prop ''link'' selectedExportData)))
             in
             if truthy payload then
               Inr \<lparr> fileBuffer = decode_direct_payload b64 payload,
                     pickedContent = JNull, downloadUrl = JNull \<rparr>
             else if truthy link then
               Inr \<lparr> fileBuffer = None, pickedContent = JNull, downloadUrl = link \<rparr>
             else
               Inr \<lparr> fileBuffer = None, pickedContent = JNull, downloadUrl = JNull \<rparr>)
          else Inr \<lparr> fileBuffer = None, pickedContent = JNull, downloadUrl = JNull \<rparr>)"

text \<open>
  The secondary download: made only when no buffer was produced and a URL was found.
  The result is a thrown error, a finished response, or the buffer as it stands.
\<close>

definition fetch_download ::
  "env \<Rightarrow> extraction \<Rightarrow> (js_error + response + byte list option) \<times> event list" where
  "fetch_download environment ex =
     (if fileBuffer ex = None \<and> truthy (downloadUrl ex) then
        (case fetch environment (downloadUrl ex) of
           Inl e \<Rightarrow> (Inl e, [Fetch (downloadUrl ex)])
         | Inr r \<Rightarrow>
             if \<not> ok r then
               (Inr (Inl (Json 502 (ErrorBody ''Download failed''
                  (Some (''Failed to download export: '' @ show_nat (status r) @ '' ''
                         @ statusText r))
                  None))),
                [Fetch (downloadUrl ex)])
             else (Inr (Inr (Some (arrayBuffer r))), [Fetch (downloadUrl ex)]))
      else (Inr (Inr (fileBuffer ex)), []))"

section \<open>Content type and file name\<close>

text \<open>
  \<^verbatim>\<open>v.toString()\<close>; the bytes of a \<^verbatim>\<open>Buffer\<close> are read as one character each. The
  format token is read through it, and so is a declared content type that is not a
  string.
\<close>

fun join_comma :: "string list \<Rightarrow> string" where
  "join_comma [] = []"
| "join_comma [x] = x"
| "join_comma (x # y # ys) = x @ '','' @ join_comma (y # ys)"

fun js_toString :: "jsval \<Rightarrow> string" where
  "js_toString JUndefined = ''undefined''"
| "js_toString JNull = ''null''"
| "js_toString (JBool b) = (if b then ''true'' else ''false'')"
| "js_toString (JNum n) = show_int n"
| "js_toString (JStr s) = s"
| "js_toString (JArr xs) =
     join_comma (map (\<lambda>x. if x = JUndefined \<or> x = JNull then [] else js_toString x) xs)"
| "js_toString (JObj kvs) = ''[object Object]''"
| "js_toString (JArrayBuffer bs) = ''[object ArrayBuffer]''"
| "js_toString (JBuffer bs) = map (\<lambda>b. char_of (unat b)) bs"

text \<open>
  The test \<^verbatim>\<open>/\b(x-)?obj\b/i.test(ct)\<close>. A word boundary lies between a word character
  and a character that is none, the two ends of the string counting as none.
\<close>

definition isWordChar :: "char \<Rightarrow> bool" where
  "isWordChar c =
     (let n = (of_char c :: nat) in
      (48 \<le> n \<and> n \<le> 57) \<or> (65 \<le> n \<and> n \<le> 90) \<or> (97 \<le> n \<and> n \<le> 122) \<or> n = 95)"

definition word_boundary :: "bool \<Rightarrow> string \<Rightarrow> bool" where
  "word_boundary prevIsWord rest =
     (prevIsWord \<noteq> (case rest of [] \<Rightarrow> False | c # _ \<Rightarrow> isWordChar c))"

definition match_ci :: "string \<Rightarrow> string \<Rightarrow> string option" where
  "match_ci lit s =
     (if length lit \<le> length s \<and> toLowerCase (take (length lit) s) = lit
      then Some (drop (length lit) s) else None)"

definition obj_then_boundary :: "string \<Rightarrow> bool" where
  "obj_then_boundary s =
     (case match_ci ''obj'' s of None \<Rightarrow> False | Some rest \<Rightarrow> word_boundary True rest)"

definition match_here :: "bool \<Rightarrow> string \<Rightarrow> bool" where
  "match_here prevIsWord s =
     (word_boundary prevIsWord s
      \<and> ((case match_ci ''x-'' s of None \<Rightarrow> False | Some rest \<Rightarrow> obj_then_boundary rest)
         \<or> obj_then_boundary s))"

fun regex_scan :: "bool \<Rightarrow> string \<Rightarrow> bool" where
  "regex_scan prevIsWord [] = match_here prevIsWord []"
| "regex_scan prevIsWord (c # cs) =
     (match_here prevIsWord (c # cs) \<or> regex_scan (isWordChar c) cs)"

definition obj_pattern_test :: "string \<Rightarrow> bool" where
  "obj_pattern_test ct = regex_scan False ct"

definition declared_format :: "jsval \<Rightarrow> jsval \<Rightarrow> string" where
  "declared_format picked selectedExportData =
     toLowerCase (js_toString
       (js_or (get_prop ''format'' picked)
          (js_or (get_prop ''format'' selectedExportData) (JStr []))))"

definition resolve_content_type :: "string \<Rightarrow> jsval \<Rightarrow> string option \<Rightarrow> string" where
  "resolve_content_type format picked contentType =
     (if format = ''pdf'' then ''application/pdf''
      else if format = ''zip'' then ''application/zip''
      else if format = ''obj'' then ''model/obj''
      else if truthy (get_prop ''contentType'' picked)
        then js_toString (get_prop ''contentType'' picked)
      else if present contentType then or_empty contentType
      else ''application/octet-stream'')"

definition normalize_content_type :: "string \<Rightarrow> string \<Rightarrow> string" where
  "normalize_content_type format ct =
     (if format = [] \<and> obj_pattern_test ct then ''model/obj'' else ct)"

definition file_extension :: "string \<Rightarrow> string \<Rightarrow> string" where
  "file_extension format ct =
     (let ext =
        (if format \<noteq> [] then ''.'' @ format
         else if ct = ''application/pdf'' then ''.pdf''
         else if ct = ''application/zip'' then ''.zip''
         else if ct = ''model/obj'' then ''.obj''
         else [])
      in if ext = [] \<and> obj_pattern_test ct then ''.obj'' else ext)"

section \<open>Response assembly and cache population\<close>

text \<open>
  The tail of the handler, once the bytes exist. The cache write is started and not
  awaited: its rejection only reaches the \<^verbatim>\<open>console.warn\<close> of its \<^verbatim>\<open>catch\<close>.
\<close>

definition sent_content_type :: "download_request \<Rightarrow> jsval \<Rightarrow> jsval \<Rightarrow> string" where
  "sent_content_type rq selectedExportData picked =
     (let format = declared_format picked selectedExportData in
      normalize_content_type format (resolve_content_type format picked (req_contentType rq)))"

definition sent_filename :: "download_request \<Rightarrow> string \<Rightarrow> jsval \<Rightarrow> jsval \<Rightarrow> string" where
  "sent_filename rq selectedExportName selectedExportData picked =
     (let format = declared_format picked selectedExportData;
          ct = sent_content_type rq selectedExportData picked;
          ext = file_extension format ct
      in or_empty (req_designId rq) @ ''_''
         @ (if selectedExportName \<noteq> [] then selectedExportName else requested_exportType rq)
         @ ext)"

definition send_download ::
  "env \<Rightarrow> download_request \<Rightarrow> string \<Rightarrow> jsval \<Rightarrow> jsval \<Rightarrow> byte list
     \<Rightarrow> response \<times> event list" where
  "send_download environment rq selectedExportName selectedExportData picked bytes =
     (let ct = sent_content_type rq selectedExportData picked;
          filename = sent_filename rq selectedExportName selectedExportData picked;
          headers = [(''X-Cache'', ''MISS''),
                     (''Content-Type'', ct),
                     (''Content-Disposition'',
                        ''attachment; filename='' @ dquote @ filename @ dquote),
                     (''Content-Length'', show_nat (length bytes))];
          k = store_key rq ct
      in
      (Send headers bytes,
       if \<not> req_bypassCache rq then
         CachePut k bytes ct filename
         # (case putCachedExport environment k bytes ct filename of
              None \<Rightarrow> []
            | Some err \<Rightarrow> [ConsoleWarn (''Cache store failed: '' @ error_message err)])
       else []))"

section \<open>The handler\<close>

text \<open>Steps 7 onwards: the computed result is read and turned into a response.\<close>

definition deliver_export ::
  "env \<Rightarrow> download_request \<Rightarrow> string \<Rightarrow> string \<Rightarrow> export_results
     \<Rightarrow> (js_error + response) \<times> event list" where
  "deliver_export environment rq selectedExportId selectedExportName exportData =
     (case (case res_exports exportData of
              None \<Rightarrow> None
            | Some results \<Rightarrow>
                (case map_of results selectedExportId of
                   None \<Rightarrow> None
                 | Some v \<Rightarrow> if truthy v then Some v else None)) of
        None \<Rightarrow>
          (Inr (Json 500 (ErrorBody ''Export missing'' (Some ''Export not found in results'')
                  None)), [])
      | Some selectedExportData \<Rightarrow>
          (case extract_payload (from_base64 environment) (req_contentType rq)
                  selectedExportData of
             Inl e \<Rightarrow> (Inl e, [])
           | Inr ex \<Rightarrow>
               (case fetch_download environment ex of
                  (Inl e, tr) \<Rightarrow> (Inl e, tr)
                | (Inr (Inl failed), tr) \<Rightarrow> (Inr failed, tr)
                | (Inr (Inr None), tr) \<Rightarrow>
                    (Inr (Json 500 (ErrorBody ''No export content''
                            (Some ''No file content or URL returned by export'') None)), tr)
                | (Inr (Inr (Some bytes)), tr) \<Rightarrow>
                    (case send_download environment rq selectedExportName
                            selectedExportData (pickedContent ex) bytes of
                       (resp, tr') \<Rightarrow> (Inr resp, tr @ tr')))))"

text \<open>Steps 1 to 6: session, parameter and export discovery, computation.\<close>

definition resolve_export ::
  "env \<Rightarrow> download_request \<Rightarrow> (js_error + response) \<times> event list" where
  "resolve_export environment rq =
     (let designId = or_empty (req_designId rq);
          exportType = requested_exportType rq;
          endpoint = endpoint_of rq;
          databaseApiUrl = RENDER_DEPLOYMENT_URI
      in
      case createSessionByTicket environment endpoint of
        Inl sessionError \<Rightarrow>
          (Inl (Error (''Failed to create ShapeDiver session: '' @ error_message sessionError)),
           [CreateSession endpoint,
            ConsoleError (''Session creation failed: '' @ error_message sessionError)])
      | Inr sessionData \<Rightarrow>
          (case (case parameters sessionData of None \<Rightarrow> None | Some ps \<Rightarrow> find_moda_json ps) of
             None \<Rightarrow>
               (Inl (Error ''Could not find moda-json input parameter''),
                [CreateSession endpoint])
           | Some modaJsonInputId \<Rightarrow>
               if modaJsonInputId = [] then
                 (Inl (Error ''Could not find moda-json input parameter''),
                  [CreateSession endpoint])
               else
                 (case (case exports sessionData of
                          None \<Rightarrow> None
                        | Some es \<Rightarrow> select_export exportType (req_exportNameContains rq) es) of
                    None \<Rightarrow>
                      (Inr (export_not_found exportType (req_exportNameContains rq)),
                       [CreateSession endpoint])
                  | Some (selectedExportId, selectedExportName) \<Rightarrow>
                      if selectedExportId = [] then
                        (Inr (export_not_found exportType (req_exportNameContains rq)),
                         [CreateSession endpoint])
                      else
                        (let modaJsonUri = databaseApiUrl @ ''/api/data/'' @ designId;
                             exportRequest =
                               \<lparr> rq_parameters = [(modaJsonInputId, modaJsonUri)],
                                 rq_exports = [selectedExportId] \<rparr>;
                             calls = [CreateSession endpoint,
                                      ComputeExports endpoint (sessionId sessionData)
                                        exportRequest]
                         in
                         case computeExports environment endpoint (sessionId sessionData)
                                exportRequest of
                           Inl e \<Rightarrow> (Inl e, calls)
                         | Inr exportData \<Rightarrow>
                             (case deliver_export environment rq selectedExportId
                                     selectedExportName exportData of
                                (r, tr) \<Rightarrow> (r, calls @ tr))))))"

text \<open>The body of the \<^verbatim>\<open>try\<close> block: validation, cache probe, then resolution.\<close>

definition download_body ::
  "env \<Rightarrow> download_request \<Rightarrow> (js_error + response) \<times> event list" where
  "download_body environment rq =
     (if \<not> present (req_designId rq) then
        (Inr (Json 400 (ErrorBody ''Missing required parameter'' (Some ''designId is required'')
                None)), [])
      else if \<not> req_bypassCache rq then
        (case getCachedExport environment (probe_key rq) of
           Inl e \<Rightarrow> (Inl e, [CacheGet (probe_key rq)])
         | Inr cached \<Rightarrow>
             (case (if hit cached then buffer cached else None) of
                Some buf \<Rightarrow> (Inr (respond_hit cached buf), [CacheGet (probe_key rq)])
              | None \<Rightarrow>
                  (case resolve_export environment rq of
                     (r, tr) \<Rightarrow> (r, CacheGet (probe_key rq) # tr))))
      else resolve_export environment rq)"

text \<open>The handler with its \<^verbatim>\<open>catch\<close>: whatever was thrown becomes a 500.\<close>

definition download_handler :: "env \<Rightarrow> download_request \<Rightarrow> response \<times> event list" where
  "download_handler environment rq =
     (case download_body environment rq of
        (Inr resp, tr) \<Rightarrow> (resp, tr)
      | (Inl e, tr) \<Rightarrow>
          (Json 500 (ErrorBody ''Download error''
             (Some (if error_message e \<noteq> [] then error_message e else ''Unknown error''))
             None),
           tr @ [ConsoleError (''Error in download endpoint: '' @ error_message e)]))"

section \<open>The runtime's base64 decoder\<close>

text \<open>
  \<^verbatim>\<open>Buffer.from(s, 'base64')\<close> as the runtime implements it: a character outside the
  alphabet (standard or URL-safe) is skipped, the first \<^verbatim>\<open>=\<close> ends the input, four
  sextets give three bytes, and a trailing group of three or two gives two or one.
\<close>

definition unbase64 :: "char \<Rightarrow> nat option" where
  "unbase64 c =
     (let n = (of_char c :: nat) in
      if 65 \<le> n \<and> n \<le> 90 then Some (n - 65)
      else if 97 \<le> n \<and> n \<le> 122 then Some (n - 71)
      else if 48 \<le> n \<and> n \<le> 57 then Some (n + 4)
      else if n = 43 \<or> n = 45 then Some 62
      else if n = 47 \<or> n = 95 then Some 63
      else None)"

fun sextets :: "string \<Rightarrow> nat list" where
  "sextets [] = []"
| "sextets (c # cs) =
     (if c = CHR ''='' then []
      else (case unbase64 c of None \<Rightarrow> sextets cs | Some v \<Rightarrow> v # sextets cs))"

fun decode_groups :: "nat list \<Rightarrow> byte list" where
  "decode_groups (a # b # c # d # rest) =
     of_nat (a * 4 + b div 16) # of_nat ((b mod 16) * 16 + c div 4)
       # of_nat ((c mod 4) * 64 + d) # decode_groups rest"
| "decode_groups [a, b, c] = [of_nat (a * 4 + b div 16), of_nat ((b mod 16) * 16 + c div 4)]"
| "decode_groups [a, b] = [of_nat (a * 4 + b div 16)]"
| "decode_groups _ = []"

definition node_base64 :: "string \<Rightarrow> byte list" where
  "node_base64 s = decode_groups (sextets s)"

section \<open>The artifact cache\<close>

type_synonym cache_store = "(cache_key \<times> byte list \<times> string \<times> string) list"

text \<open>
  Modelled from the spec: the lookup of the cache service \<^verbatim>\<open>./services/firebaseCache\<close>
  behind \<^verbatim>\<open>getCachedExport\<close>, over a store that returns an entry exactly when the criteria
  of the lookup equal the key an entry was written under; the latest write under a key is
  the one returned.
\<close>

definition store_get :: "cache_store \<Rightarrow> cache_key \<Rightarrow> js_error + cache_result" where
  "store_get st k =
     Inr (case map_of st k of
            None \<Rightarrow> \<lparr> hit = False, buffer = None, cached_contentType = None,
                      cached_filename = None \<rparr>
          | Some (bytes, ct, filename) \<Rightarrow>
              \<lparr> hit = True, buffer = Some bytes, cached_contentType = Some ct,
                cached_filename = Some filename \<rparr>)"

text \<open>
  Modelled from the spec: the writes of \<^verbatim>\<open>putCachedExport\<close> that a run issued, carried out
  on the store.
\<close>

fun populate :: "event list \<Rightarrow> cache_store \<Rightarrow> cache_store" where
  "populate [] st = st"
| "populate (CachePut k bytes ct filename # evs) st =
     populate evs ((k, bytes, ct, filename) # st)"
| "populate (ev # evs) st = populate evs st"

text \<open>
  Modelled from the spec: the collaborators of a run whose cache is the store, with
  writes that succeed.
\<close>

definition with_store :: "cache_store \<Rightarrow> env \<Rightarrow> env" where
  "with_store st environment =
     environment \<lparr> getCachedExport := store_get st,
                   putCachedExport := (\<lambda>k bytes ct filename. None) \<rparr>"

text \<open>The calls to the remote service and to a download URL, among the events of a run.\<close>

fun is_remote_call :: "event \<Rightarrow> bool" where
  "is_remote_call (CreateSession endpoint) = True"
| "is_remote_call (ComputeExports endpoint sid request) = True"
| "is_remote_call (Fetch url) = True"
| "is_remote_call ev = False"

fun is_cache_write :: "event \<Rightarrow> bool" where
  "is_cache_write (CachePut k bytes ct filename) = True"
| "is_cache_write ev = False"

text \<open>
  The probe let the request through: the cache was bypassed, or the lookup returned
  without a hit that carries a buffer.
\<close>

definition cache_missed :: "env \<Rightarrow> download_request \<Rightarrow> bool" where
  "cache_missed environment rq =
     (req_bypassCache rq
      \<or> (case getCachedExport environment (probe_key rq) of
            Inl e \<Rightarrow> False
          | Inr cached \<Rightarrow> \<not> hit cached \<or> buffer cached = None))"

definition probe_events :: "download_request \<Rightarrow> event list" where
  "probe_events rq = (if req_bypassCache rq then [] else [CacheGet (probe_key rq)])"

section \<open>Example inputs\<close>





definition demo_parameters :: "(string \<times> param_def) list" where
  "demo_parameters =
     [(''p0'', \<lparr> param_name = Some ''width'' \<rparr>), (''p1'', \<lparr> param_name = Some ''moda-json'' \<rparr>)]"

definition demo_exports :: "(string \<times> export_def) list" where
  "demo_exports =
     [(''e0'', \<lparr> export_name = Some ''Preview'', export_type = Some ''email'' \<rparr>),
      (''e1'', \<lparr> export_name = Some ''Report PDF'', export_type = Some ''Download'' \<rparr>),
      (''e2'', \<lparr> export_name = Some ''Mesh'', export_type = Some ''download'' \<rparr>)]"

definition demo_session :: session_data where
  "demo_session =
     \<lparr> sessionId = ''sess-1'', parameters = Some demo_parameters, exports = Some demo_exports \<rparr>"

definition no_entry :: cache_result where
  "no_entry = \<lparr> hit = False, buffer = None, cached_contentType = None, cached_filename = None \<rparr>"

definition demo_env :: "jsval \<Rightarrow> env" where
  "demo_env result =
     \<lparr> getCachedExport = (\<lambda>k. Inr no_entry),
       putCachedExport = (\<lambda>k bytes ct filename. None),
       createSessionByTicket = (\<lambda>endpoint. Inr demo_session),
       computeExports = (\<lambda>endpoint sid request. Inr \<lparr> res_exports = Some [(''e1'', result)] \<rparr>),
       fetch = (\<lambda>url. Inr \<lparr> ok = True, status = 200, statusText = ''OK'', arrayBuffer = [37, 80, 68, 70] \<rparr>),
       from_base64 = node_base64 \<rparr>"

definition demo_request :: download_request where
  "demo_request =
     \<lparr> req_designId = Some ''abc'', req_shapediverEndpoint = None, req_exportType = None,
       req_exportNameContains = None, req_contentType = None, req_bypassCache = False \<rparr>"

definition pdf_request :: download_request where
  "pdf_request = demo_request \<lparr> req_contentType := Some ''application/pdf'' \<rparr>"

definition bypass_request :: download_request where
  "bypass_request = demo_request \<lparr> req_bypassCache := True \<rparr>"


definition mesh_request :: download_request where
  "mesh_request = demo_request \<lparr> req_exportNameContains := Some ''ESH'' \<rparr>"

definition pdf_by_href :: jsval where
  "pdf_by_href =
     JObj [(''content'',
            JArr [JObj [(''format'', JStr ''pdf''), (''contentType'', JStr ''application/pdf''),
                        (''href'', JStr ''https://cdn.example/report.pdf'')]])]"



definition obj_entry :: jsval where
  "obj_entry = JObj [(''contentType'', JStr ''text/x-obj''), (''data'', JStr ''aGk='')]"

definition txt_obj_entry :: jsval where
  "txt_obj_entry =
     JObj [(''contentType'', JStr ''text/x-obj''), (''format'', JStr ''txt''), (''data'', JStr ''aGk='')]"

definition object_entry :: jsval where
  "object_entry = JObj [(''contentType'', JStr ''application/object''), (''data'', JStr ''aGk='')]"

definition url_only_entry :: jsval where
  "url_only_entry = JObj [(''url'', JStr ''https://cdn.example/report.pdf'')]"

definition hit_entry :: cache_result where
  "hit_entry = \<lparr> hit = True, buffer = Some [1, 2, 3], cached_contentType = Some ''application/pdf'',
                 cached_filename = Some ''abc_Report PDF.pdf'' \<rparr>"

definition hit_env :: env where
  "hit_env = (demo_env pdf_by_href) \<lparr> getCachedExport := (\<lambda>k. Inr hit_entry) \<rparr>"

definition failing_put_env :: env where
  "failing_put_env =
     (demo_env pdf_by_href) \<lparr> putCachedExport := (\<lambda>k bytes ct filename. Some (Error ''quota exceeded'')) \<rparr>"

section \<open>Strings and lists\<close>



lemma str_split_no_separator: "sep \<notin> set s \<Longrightarrow> str_split sep s = [s]"
  by (induction s) auto

lemma str_split_at_first:
  "sep \<notin> set pre \<Longrightarrow> str_split sep (pre @ sep # rest) = pre # str_split sep rest"
  by (induction pre) auto

section \<open>Version resolution: the requested index\<close>






section \<open>The cache probe\<close>

text \<open>
  Claim C3. A request that names a design, does not bypass the cache, and whose lookup
  returns a hit with a buffer is answered with exactly that buffer and the header
  \<open>X-Cache: HIT\<close>; the cached content type and file name, where the entry carries
  them, are the ones sent; and the only call made is the lookup itself: no session is
  opened, nothing is computed, nothing is fetched.
\<close>

theorem cache_hit_served:
  assumes "present (req_designId rq)" and "\<not> req_bypassCache rq"
    and "getCachedExport environment (probe_key rq) = Inr cached"
    and "hit cached" and "buffer cached = Some bytes"
  shows "\<exists>headers.
           download_handler environment rq = (Send headers bytes, [CacheGet (probe_key rq)])
           \<and> map_of headers ''X-Cache'' = Some ''HIT''
           \<and> (present (cached_contentType cached) \<longrightarrow>
                map_of headers ''Content-Type'' = cached_contentType cached)
           \<and> (present (cached_filename cached) \<longrightarrow>
                map_of headers ''Content-Disposition'' =
                  Some (''attachment; filename='' @ dquote @ or_empty (cached_filename cached)
                        @ dquote))
           \<and> map_of headers ''Content-Length'' = Some (show_nat (length bytes))
           \<and> \<not> list_ex is_remote_call (snd (download_handler environment rq))"
proof -
  have "download_handler environment rq = (respond_hit cached bytes, [CacheGet (probe_key rq)])"
    using assms by (simp add: download_handler_def download_body_def)
  moreover have "present (cached_contentType cached) \<Longrightarrow>
     Some (or_empty (cached_contentType cached)) = cached_contentType cached"
    by (cases "cached_contentType cached") (simp_all add: or_empty_def)
  ultimately show ?thesis
    by (auto simp: respond_hit_def)
qed

text \<open>A cached PDF is served as it was stored.\<close>

theorem cache_hit_served_witness:
  "download_handler hit_env demo_request =
     (Send [(''X-Cache'', ''HIT''), (''Content-Type'', ''application/pdf''),
            (''Content-Disposition'',
               ''attachment; filename='' @ dquote @ ''abc_Report PDF.pdf'' @ dquote),
            (''Content-Length'', ''3'')] [1, 2, 3],
      [CacheGet (probe_key demo_request)])"
proof -
  have 1: "present (req_designId demo_request)" by code_simp
  have 2: "\<not> req_bypassCache demo_request" by code_simp
  have 3: "getCachedExport hit_env (probe_key demo_request) = Inr hit_entry" by code_simp
  have 4: "hit hit_entry" by code_simp
  have 5: "buffer hit_entry = Some [1, 2, 3]" by code_simp
  have 6: "present (cached_contentType hit_entry)" "present (cached_filename hit_entry)"
    by code_simp+
  have 7: "cached_contentType hit_entry = Some ''application/pdf''"
    "or_empty (cached_filename hit_entry) = ''abc_Report PDF.pdf''" by code_simp+
  have 8: "show_nat (length [1, 2, 3 :: byte]) = ''3''" by code_simp
  from cache_hit_served[OF 1 2 3 4 5] obtain headers where
    h: "download_handler hit_env demo_request = (Send headers [1, 2, 3], [CacheGet (probe_key demo_request)])"
    by blast
  have "fst (download_handler hit_env demo_request) =
     Send [(''X-Cache'', ''HIT''), (''Content-Type'', ''application/pdf''),
            (''Content-Disposition'',
               ''attachment; filename='' @ dquote @ ''abc_Report PDF.pdf'' @ dquote),
            (''Content-Length'', ''3'')] [1, 2, 3]" by code_simp
  with h show ?thesis by simp
qed

section \<open>Requests that pass the probe\<close>

lemma download_body_fresh:
  assumes "present (req_designId rq)" and "cache_missed environment rq"
  shows "download_body environment rq =
           (fst (resolve_export environment rq),
            probe_events rq @ snd (resolve_export environment rq))"
  using assms
  by (auto simp: download_body_def cache_missed_def probe_events_def
           split: sum.splits prod.splits option.splits)

lemma download_handler_fresh_response:
  assumes "present (req_designId rq)" and "cache_missed environment rq"
    and "resolve_export environment rq = (Inr resp, tr)"
  shows "download_handler environment rq = (resp, probe_events rq @ tr)"
  using download_body_fresh[OF assms(1,2)] assms(3)
  by (simp add: download_handler_def)


section \<open>Export discovery\<close>







section \<open>A result without the selected export\<close>

lemma deliver_export_missing:
  assumes "res_exports exportData = None
           \<or> (\<exists>results. res_exports exportData = Some results \<and> map_of results eid = None)"
  shows "deliver_export environment rq eid nm exportData =
           (Inr (Json 500 (ErrorBody ''Export missing'' (Some ''Export not found in results'')
                   None)), [])"
  using assms by (auto simp: deliver_export_def)

text \<open>
  Claim C10. When the computation returns a result that has no exports map, or whose
  exports map has no entry for the selected export id, the request ends with status 500
  and the body \<open>{error: 'Export missing', message: 'Export not found in results'}\<close>,
  after the session and the computation and before any extraction.
\<close>

theorem export_missing_from_results:
  assumes "present (req_designId rq)" and "cache_missed environment rq"
    and "createSessionByTicket environment (endpoint_of rq) = Inr sd"
    and "parameters sd = Some ps" and "find_moda_json ps = Some pid" and "pid \<noteq> []"
    and "exports sd = Some es"
    and "select_export (requested_exportType rq) (req_exportNameContains rq) es = Some (eid, nm)"
    and "eid \<noteq> []"
    and "request = \<lparr> rq_parameters =
                       [(pid, RENDER_DEPLOYMENT_URI @ ''/api/data/'' @ or_empty (req_designId rq))],
                     rq_exports = [eid] \<rparr>"
    and "computeExports environment (endpoint_of rq) (sessionId sd) request = Inr exportData"
    and "res_exports exportData = None
         \<or> (\<exists>results. res_exports exportData = Some results \<and> map_of results eid = None)"
  shows "download_handler environment rq =
           (Json 500 (ErrorBody ''Export missing'' (Some ''Export not found in results'') None),
            probe_events rq
            @ [CreateSession (endpoint_of rq),
               ComputeExports (endpoint_of rq) (sessionId sd) request])"
proof -
  have r: "resolve_export environment rq =
     (Inr (Json 500 (ErrorBody ''Export missing'' (Some ''Export not found in results'') None)),
      [CreateSession (endpoint_of rq), ComputeExports (endpoint_of rq) (sessionId sd) request])"
    using assms(3-11) deliver_export_missing[OF assms(12), of environment rq nm]
    by (simp add: resolve_export_def Let_def)
  show ?thesis
    using download_handler_fresh_response[OF assms(1,2) r] by simp
qed

text \<open>The service returns a result for \<open>e1\<close> only, and \<open>e2\<close> was selected.\<close>

theorem export_missing_from_results_witness:
  "download_handler (demo_env pdf_by_href) mesh_request =
     (Json 500 (ErrorBody ''Export missing'' (Some ''Export not found in results'') None),
      [CacheGet (probe_key mesh_request),
       CreateSession (endpoint_of mesh_request),
       ComputeExports (endpoint_of mesh_request) ''sess-1''
         \<lparr> rq_parameters = [(''p1'', ''https://mongo-sd-server.onrender.com/api/data/abc'')],
           rq_exports = [''e2''] \<rparr>])"
proof -
  let ?env = "demo_env pdf_by_href"
  let ?request = "\<lparr> rq_parameters = [(''p1'', ''https://mongo-sd-server.onrender.com/api/data/abc'')],
           rq_exports = [''e2''] \<rparr>"
  have 1: "present (req_designId mesh_request)" by code_simp
  have 2: "cache_missed ?env mesh_request" by code_simp
  have 3: "createSessionByTicket ?env (endpoint_of mesh_request) = Inr demo_session" by code_simp
  have 4: "parameters demo_session = Some demo_parameters" by code_simp
  have 5: "find_moda_json demo_parameters = Some ''p1''" by code_simp
  have 6: "''p1'' \<noteq> []" by simp
  have 7: "exports demo_session = Some demo_exports" by code_simp
  have 8: "select_export (requested_exportType mesh_request) (req_exportNameContains mesh_request)
             demo_exports = Some (''e2'', ''Mesh'')" by code_simp
  have 9: "''e2'' \<noteq> []" by simp
  have 10: "?request = \<lparr> rq_parameters =
                       [(''p1'', RENDER_DEPLOYMENT_URI @ ''/api/data/'' @ or_empty (req_designId mesh_request))],
                     rq_exports = [''e2''] \<rparr>" by code_simp
  have 11: "computeExports ?env (endpoint_of mesh_request) (sessionId demo_session) ?request
              = Inr \<lparr> res_exports = Some [(''e1'', pdf_by_href)] \<rparr>" by code_simp
  have 12: "res_exports \<lparr> res_exports = Some [(''e1'', pdf_by_href)] \<rparr> = None
         \<or> (\<exists>results. res_exports \<lparr> res_exports = Some [(''e1'', pdf_by_href)] \<rparr> = Some results
               \<and> map_of results ''e2'' = None)" by simp
  have pe: "probe_events mesh_request = [CacheGet (probe_key mesh_request)]" by code_simp
  have sid: "sessionId demo_session = ''sess-1''" by code_simp
  from export_missing_from_results[OF 1 2 3 4 5 6 7 8 9 10 11 12] pe sid
  show ?thesis by simp
qed

section \<open>Payload extraction: the picked entry\<close>







section \<open>Payload extraction: data URIs\<close>

text \<open>
  In a picked entry, a string payload that starts with \<open>data:\<close> is decoded from its
  second comma-separated part, which is all that follows the first comma when there is
  no further comma. A string payload of the result object itself is decoded whole.
\<close>

lemma entry_data_uri_decoded:
  assumes "startsWith s ''data:''" and "s = pre @ CHR '','' # rest"
    and "CHR '','' \<notin> set pre" and "CHR '','' \<notin> set rest"
  shows "decode_entry_payload b64 (JStr s) = Some (b64 rest)"
  using assms
  by (simp add: decode_entry_payload_def str_split_at_first str_split_no_separator)

lemma direct_string_decoded_whole: "decode_direct_payload b64 (JStr s) = Some (b64 s)"
  by (simp add: decode_direct_payload_def)

text \<open>
  Claim C2 at a failing input. The result object carries the payload
  \<open>data:text/plain;base64,aGk=\<close> itself: the bytes produced are the decoding of the whole
  string, seventeen bytes, and not the two bytes that \<open>aGk=\<close> decodes to. The same payload
  inside an entry of a \<open>content\<close> array gives the two bytes.
\<close>

theorem direct_data_uri_decoded_whole:
  "extract_payload node_base64 None (JObj [(''data'', JStr ''data:text/plain;base64,aGk='')])
     = Inr \<lparr> fileBuffer = Some [117, 171, 90, 181, 236, 109, 254, 153, 90, 138, 118, 218, 177,
                                 238, 184, 104, 105],
             pickedContent = JNull, downloadUrl = JNull \<rparr>
   \<and> node_base64 ''aGk='' = [104, 105]
   \<and> extract_payload node_base64 None
        (JObj [(''content'', JArr [JObj [(''data'', JStr ''data:text/plain;base64,aGk='')]])])
     = Inr \<lparr> fileBuffer = Some [104, 105],
             pickedContent = JObj [(''data'', JStr ''data:text/plain;base64,aGk='')],
             downloadUrl = JNull \<rparr>"
  by code_simp

section \<open>Payload extraction: download URLs\<close>

text \<open>
  Claim C8 at a failing input. An entry of the \<open>content\<close> array that carries its URL
  under \<open>url\<close> is not fetched: only \<open>href\<close> is read there, and the request ends with 500
  \<open>No export content\<close>. The same object as the result itself is fetched.
\<close>

theorem entry_url_field_not_fetched:
  "download_handler (demo_env (JObj [(''content'', JArr [url_only_entry])])) demo_request =
     (Json 500 (ErrorBody ''No export content''
        (Some ''No file content or URL returned by export'') None),
      [CacheGet (probe_key demo_request),
       CreateSession (endpoint_of demo_request),
       ComputeExports (endpoint_of demo_request) ''sess-1''
         \<lparr> rq_parameters = [(''p1'', ''https://mongo-sd-server.onrender.com/api/data/abc'')],
           rq_exports = [''e1''] \<rparr>])
   \<and> filter is_remote_call (snd (download_handler (demo_env url_only_entry) demo_request)) =
      [CreateSession (endpoint_of demo_request),
       ComputeExports (endpoint_of demo_request) ''sess-1''
         \<lparr> rq_parameters = [(''p1'', ''https://mongo-sd-server.onrender.com/api/data/abc'')],
           rq_exports = [''e1''] \<rparr>,
       Fetch (JStr ''https://cdn.example/report.pdf'')]"
  by code_simp

section \<open>The OBJ pattern\<close>

text \<open>
  The test succeeds exactly on the strings that contain \<open>obj\<close>, in any case, as a word of
  its own: not preceded and not followed by a letter, a digit or an underscore. The
  optional \<open>x-\<close> of the pattern adds nothing, since the hyphen already separates words.
\<close>

lemma isWordChar_toLowerChar: "isWordChar (toLowerChar c) = isWordChar c"
proof (cases "65 \<le> (of_char c :: nat) \<and> (of_char c :: nat) \<le> 90")
  case True
  then have "(of_char (char_of (of_char c + 32 :: nat)) :: nat) = of_char c + 32"
    by (simp add: of_char_of)
  with True show ?thesis by (simp add: toLowerChar_def isWordChar_def Let_def)
next
  case False
  then have "toLowerChar c = c" by (auto simp: toLowerChar_def Let_def)
  then show ?thesis by simp
qed

lemma match_ci_Some:
  "match_ci lit s = Some rest \<longleftrightarrow>
   (\<exists>m. s = m @ rest \<and> length m = length lit \<and> toLowerCase m = lit)"
proof
  assume "match_ci lit s = Some rest"
  then have "length lit \<le> length s" "toLowerCase (take (length lit) s) = lit"
    "rest = drop (length lit) s"
    by (auto simp: match_ci_def split: if_splits)
  then have "s = take (length lit) s @ rest \<and> length (take (length lit) s) = length lit
      \<and> toLowerCase (take (length lit) s) = lit" by simp
  then show "\<exists>m. s = m @ rest \<and> length m = length lit \<and> toLowerCase m = lit" by blast
next
  assume "\<exists>m. s = m @ rest \<and> length m = length lit \<and> toLowerCase m = lit"
  then obtain m where "s = m @ rest" "length m = length lit" "toLowerCase m = lit" by blast
  then show "match_ci lit s = Some rest" by (simp add: match_ci_def)
qed

lemma toLowerCase_length: "length (toLowerCase m) = length m"
  by (simp add: toLowerCase_def)

lemma word_o: "isWordChar CHR ''o''" by code_simp
lemma word_x: "isWordChar CHR ''x''" by code_simp
lemma not_word_dash: "\<not> isWordChar CHR ''-''" by code_simp

lemma toLowerCase_obj:
  assumes "toLowerCase m = ''obj''"
  shows "m \<noteq> [] \<and> isWordChar (hd m)"
proof (cases m)
  case Nil
  with assms show ?thesis by (simp add: toLowerCase_def)
next
  case (Cons a rest)
  with assms have "toLowerChar a = CHR ''o''" by (simp add: toLowerCase_def)
  then have "isWordChar a" using isWordChar_toLowerChar[of a] word_o by simp
  with Cons show ?thesis by simp
qed

lemma word_boundary_after:
  "word_boundary True rest \<longleftrightarrow> \<not> (rest \<noteq> [] \<and> isWordChar (hd rest))"
  by (cases rest) (simp_all add: word_boundary_def)

lemma obj_then_boundary_iff:
  "obj_then_boundary s \<longleftrightarrow>
   (\<exists>m post. s = m @ post \<and> toLowerCase m = ''obj'' \<and> \<not> (post \<noteq> [] \<and> isWordChar (hd post)))"
proof
  assume "obj_then_boundary s"
  then obtain post where "match_ci ''obj'' s = Some post" "word_boundary True post"
    by (auto simp: obj_then_boundary_def split: option.splits)
  then show "\<exists>m post. s = m @ post \<and> toLowerCase m = ''obj''
      \<and> \<not> (post \<noteq> [] \<and> isWordChar (hd post))"
    unfolding match_ci_Some word_boundary_after by blast
next
  assume "\<exists>m post. s = m @ post \<and> toLowerCase m = ''obj''
      \<and> \<not> (post \<noteq> [] \<and> isWordChar (hd post))"
  then obtain m post where s: "s = m @ post" and m: "toLowerCase m = ''obj''"
    and p: "\<not> (post \<noteq> [] \<and> isWordChar (hd post))" by blast
  from m have "length m = length ''obj''" using toLowerCase_length[of m] by simp
  with s m have "match_ci ''obj'' s = Some post" unfolding match_ci_Some by blast
  with p show "obj_then_boundary s"
    by (simp add: obj_then_boundary_def word_boundary_after)
qed

lemma obj_then_boundary_word:
  "obj_then_boundary s \<Longrightarrow> s \<noteq> [] \<and> isWordChar (hd s)"
proof -
  assume "obj_then_boundary s"
  then obtain m post where s: "s = m @ post" and m: "toLowerCase m = ''obj''"
    by (auto simp: obj_then_boundary_iff)
  from toLowerCase_obj[OF m] s show ?thesis by (cases m) simp_all
qed


lemma match_prefix_x_dash:
  assumes "match_ci ''x-'' s = Some rest"
  shows "\<exists>a b. s = a # b # rest \<and> isWordChar a \<and> \<not> isWordChar b"
proof -
  from assms obtain m where s: "s = m @ rest" and l: "length m = length ''x-''"
    and t: "toLowerCase m = ''x-''" unfolding match_ci_Some by blast
  from l obtain a b where m: "m = [a, b]"
    by (cases m; cases "tl m") auto
  with t have "toLowerChar a = CHR ''x''" "toLowerChar b = CHR ''-''"
    by (simp_all add: toLowerCase_def)
  then have "isWordChar a" "\<not> isWordChar b"
    using isWordChar_toLowerChar[of a] isWordChar_toLowerChar[of b] word_x not_word_dash
    by simp_all
  with s m show ?thesis by simp
qed

lemma match_here_cases:
  assumes "match_here pw s"
  shows "\<not> pw \<and> (obj_then_boundary s
           \<or> (\<exists>a b rest. s = a # b # rest \<and> \<not> isWordChar b \<and> obj_then_boundary rest))"
proof -
  from assms have wb: "word_boundary pw s"
    and alt: "(case match_ci ''x-'' s of None \<Rightarrow> False | Some rest \<Rightarrow> obj_then_boundary rest)
              \<or> obj_then_boundary s"
    by (simp_all add: match_here_def)
  from alt show ?thesis
  proof
    assume o: "obj_then_boundary s"
    from obj_then_boundary_word[OF o] wb have "\<not> pw"
      by (cases s) (simp_all add: word_boundary_def)
    with o show ?thesis by blast
  next
    assume "case match_ci ''x-'' s of None \<Rightarrow> False | Some rest \<Rightarrow> obj_then_boundary rest"
    then obtain rest where mr: "match_ci ''x-'' s = Some rest" and o: "obj_then_boundary rest"
      by (auto split: option.splits)
    from match_prefix_x_dash[OF mr] obtain a b where
      s: "s = a # b # rest" and w: "isWordChar a" "\<not> isWordChar b" by blast
    from s w wb have "\<not> pw" by (simp add: word_boundary_def)
    with s w o show ?thesis by blast
  qed
qed

lemma match_here_obj:
  "\<not> pw \<Longrightarrow> obj_then_boundary s \<Longrightarrow> match_here pw s"
  using obj_then_boundary_word[of s]
  by (cases s) (simp_all add: match_here_def word_boundary_def)

lemma regex_scan_sound:
  "regex_scan pw s \<Longrightarrow>
   \<exists>pre m post. s = pre @ m @ post \<and> toLowerCase m = ''obj''
     \<and> \<not> (if pre = [] then pw else isWordChar (last pre))
     \<and> \<not> (post \<noteq> [] \<and> isWordChar (hd post))"
proof (induction s arbitrary: pw)
  case Nil
  then have "match_here pw []" by simp
  from match_here_cases[OF this] obj_then_boundary_word[of "[]"] show ?case by auto
next
  case (Cons c cs)
  from Cons.prems consider "match_here pw (c # cs)" | "regex_scan (isWordChar c) cs" by auto
  then show ?case
  proof cases
    case 1
    from match_here_cases[OF 1] have np: "\<not> pw"
      and d: "obj_then_boundary (c # cs)
           \<or> (\<exists>a b rest. c # cs = a # b # rest \<and> \<not> isWordChar b \<and> obj_then_boundary rest)"
      by blast+
    from d show ?thesis
    proof
      assume "obj_then_boundary (c # cs)"
      then obtain m post where "c # cs = [] @ m @ post" "toLowerCase m = ''obj''"
        "\<not> (post \<noteq> [] \<and> isWordChar (hd post))" by (auto simp: obj_then_boundary_iff)
      with np have "c # cs = [] @ m @ post \<and> toLowerCase m = ''obj''
        \<and> \<not> (if ([]::string) = [] then pw else isWordChar (last []))
        \<and> \<not> (post \<noteq> [] \<and> isWordChar (hd post))" by simp
      then show ?thesis by blast
    next
      assume "\<exists>a b rest. c # cs = a # b # rest \<and> \<not> isWordChar b \<and> obj_then_boundary rest"
      then obtain a b rest where s: "c # cs = a # b # rest" and nb: "\<not> isWordChar b"
        and o: "obj_then_boundary rest" by blast
      from o obtain m post where "rest = m @ post" "toLowerCase m = ''obj''"
        "\<not> (post \<noteq> [] \<and> isWordChar (hd post))" by (auto simp: obj_then_boundary_iff)
      with s nb have "c # cs = [a, b] @ m @ post \<and> toLowerCase m = ''obj''
        \<and> \<not> (if [a, b] = [] then pw else isWordChar (last [a, b]))
        \<and> \<not> (post \<noteq> [] \<and> isWordChar (hd post))" by simp
      then show ?thesis by blast
    qed
  next
    case 2
    from Cons.IH[OF 2] obtain pre m post where
      e: "cs = pre @ m @ post" and m: "toLowerCase m = ''obj''"
      and b: "\<not> (if pre = [] then isWordChar c else isWordChar (last pre))"
      and a: "\<not> (post \<noteq> [] \<and> isWordChar (hd post))" by blast
    from e b have "c # cs = (c # pre) @ m @ post
        \<and> \<not> (if c # pre = [] then pw else isWordChar (last (c # pre)))"
      by (cases pre) simp_all
    with m a show ?thesis by blast
  qed
qed

lemma regex_scan_complete:
  "s = pre @ m @ post \<Longrightarrow> toLowerCase m = ''obj'' \<Longrightarrow>
   \<not> (if pre = [] then pw else isWordChar (last pre)) \<Longrightarrow>
   \<not> (post \<noteq> [] \<and> isWordChar (hd post)) \<Longrightarrow> regex_scan pw s"
proof (induction pre arbitrary: pw s)
  case Nil
  then have "obj_then_boundary s" "\<not> pw" by (auto simp: obj_then_boundary_iff)
  then have "match_here pw s" by (simp add: match_here_obj)
  then show ?case by (cases s) simp_all
next
  case (Cons c pre)
  let ?cs = "pre @ m @ post"
  have "\<not> (if pre = [] then isWordChar c else isWordChar (last pre))"
    using Cons.prems(3) by (simp split: if_splits)
  with Cons.IH[of ?cs "isWordChar c"] Cons.prems(2,4) have "regex_scan (isWordChar c) ?cs"
    by simp
  with Cons.prems(1) show ?case by simp
qed

lemma obj_pattern_test_iff:
  "obj_pattern_test ct \<longleftrightarrow>
   (\<exists>pre m post. ct = pre @ m @ post \<and> toLowerCase m = ''obj''
      \<and> (pre = [] \<or> \<not> isWordChar (last pre))
      \<and> (post = [] \<or> \<not> isWordChar (hd post)))"
proof
  assume "obj_pattern_test ct"
  then have "regex_scan False ct" by (simp add: obj_pattern_test_def)
  from regex_scan_sound[OF this] obtain pre m post where
    "ct = pre @ m @ post" "toLowerCase m = ''obj''"
    "\<not> (if pre = [] then False else isWordChar (last pre))"
    "\<not> (post \<noteq> [] \<and> isWordChar (hd post))" by blast
  then have "ct = pre @ m @ post \<and> toLowerCase m = ''obj''
      \<and> (pre = [] \<or> \<not> isWordChar (last pre))
      \<and> (post = [] \<or> \<not> isWordChar (hd post))" by (cases "pre = []") simp_all
  then show "\<exists>pre m post. ct = pre @ m @ post \<and> toLowerCase m = ''obj''
      \<and> (pre = [] \<or> \<not> isWordChar (last pre))
      \<and> (post = [] \<or> \<not> isWordChar (hd post))" by blast
next
  assume "\<exists>pre m post. ct = pre @ m @ post \<and> toLowerCase m = ''obj''
      \<and> (pre = [] \<or> \<not> isWordChar (last pre))
      \<and> (post = [] \<or> \<not> isWordChar (hd post))"
  then obtain pre m post where e: "ct = pre @ m @ post" "toLowerCase m = ''obj''"
    and b: "pre = [] \<or> \<not> isWordChar (last pre)" "post = [] \<or> \<not> isWordChar (hd post)"
    by blast
  from b have "\<not> (if pre = [] then False else isWordChar (last pre))"
    and "\<not> (post \<noteq> [] \<and> isWordChar (hd post))" by auto
  with e have "regex_scan False ct" by (rule regex_scan_complete)
  then show "obj_pattern_test ct" by (simp add: obj_pattern_test_def)
qed

section \<open>Content type and file name of a fresh response\<close>

lemma send_download_shape:
  "send_download environment rq nm sed picked bytes =
     (Send [(''X-Cache'', ''MISS''), (''Content-Type'', sent_content_type rq sed picked),
            (''Content-Disposition'',
               ''attachment; filename='' @ dquote @ sent_filename rq nm sed picked @ dquote),
            (''Content-Length'', show_nat (length bytes))] bytes,
      if \<not> req_bypassCache rq then
        CachePut (store_key rq (sent_content_type rq sed picked)) bytes
          (sent_content_type rq sed picked) (sent_filename rq nm sed picked)
        # (case putCachedExport environment (store_key rq (sent_content_type rq sed picked)) bytes
                  (sent_content_type rq sed picked) (sent_filename rq nm sed picked) of
             None \<Rightarrow> []
           | Some err \<Rightarrow> [ConsoleWarn (''Cache store failed: '' @ error_message err)])
      else [])"
  by (simp add: send_download_def Let_def)

text \<open>
  Claim C7, as the code has it. When no format token is declared and the resolved content
  type passes the test \<open>/\b(x-)?obj\b/i\<close>, the content type sent is \<open>model/obj\<close> and the
  file name ends in \<open>.obj\<close>. When a format token is declared, the pattern rewrites
  nothing: the content type is the one resolved from the token, and the extension is the
  token. The test is passed by the strings that contain \<open>obj\<close> as a whole word.
\<close>

theorem obj_normalization:
  "(declared_format picked selectedExportData = []
    \<and> obj_pattern_test (resolve_content_type [] picked (req_contentType rq)) \<longrightarrow>
      fst (send_download environment rq nm selectedExportData picked bytes) =
        Send [(''X-Cache'', ''MISS''), (''Content-Type'', ''model/obj''),
              (''Content-Disposition'',
                 ''attachment; filename='' @ dquote
                 @ or_empty (req_designId rq) @ ''_''
                 @ (if nm \<noteq> [] then nm else requested_exportType rq) @ ''.obj'' @ dquote),
              (''Content-Length'', show_nat (length bytes))] bytes)
   \<and> (declared_format picked selectedExportData \<noteq> [] \<longrightarrow>
        sent_content_type rq selectedExportData picked =
          resolve_content_type (declared_format picked selectedExportData) picked
            (req_contentType rq)
        \<and> sent_filename rq nm selectedExportData picked =
            or_empty (req_designId rq) @ ''_''
            @ (if nm \<noteq> [] then nm else requested_exportType rq)
            @ ''.'' @ declared_format picked selectedExportData)
   \<and> (obj_pattern_test ct \<longleftrightarrow>
        (\<exists>pre m post. ct = pre @ m @ post \<and> toLowerCase m = ''obj''
           \<and> (pre = [] \<or> \<not> isWordChar (last pre))
           \<and> (post = [] \<or> \<not> isWordChar (hd post))))"
proof (intro conjI impI)
  assume a: "declared_format picked selectedExportData = []
    \<and> obj_pattern_test (resolve_content_type [] picked (req_contentType rq))"
  have ct: "sent_content_type rq selectedExportData picked = ''model/obj''"
    using a by (simp add: sent_content_type_def normalize_content_type_def)
  have fn: "sent_filename rq nm selectedExportData picked =
      or_empty (req_designId rq) @ ''_''
      @ (if nm \<noteq> [] then nm else requested_exportType rq) @ ''.obj''"
    using a by (simp add: sent_filename_def ct file_extension_def)
  show "fst (send_download environment rq nm selectedExportData picked bytes) =
        Send [(''X-Cache'', ''MISS''), (''Content-Type'', ''model/obj''),
              (''Content-Disposition'',
                 ''attachment; filename='' @ dquote
                 @ or_empty (req_designId rq) @ ''_''
                 @ (if nm \<noteq> [] then nm else requested_exportType rq) @ ''.obj'' @ dquote),
              (''Content-Length'', show_nat (length bytes))] bytes"
    by (simp add: send_download_shape ct fn)
next
  assume f: "declared_format picked selectedExportData \<noteq> []"
  then show "sent_content_type rq selectedExportData picked =
          resolve_content_type (declared_format picked selectedExportData) picked
            (req_contentType rq)"
    by (simp add: sent_content_type_def normalize_content_type_def)
  from f show "sent_filename rq nm selectedExportData picked =
            or_empty (req_designId rq) @ ''_''
            @ (if nm \<noteq> [] then nm else requested_exportType rq)
            @ ''.'' @ declared_format picked selectedExportData"
    by (simp add: sent_filename_def file_extension_def)
next
  show "obj_pattern_test ct \<longleftrightarrow>
        (\<exists>pre m post. ct = pre @ m @ post \<and> toLowerCase m = ''obj''
           \<and> (pre = [] \<or> \<not> isWordChar (last pre))
           \<and> (post = [] \<or> \<not> isWordChar (hd post)))"
    by (rule obj_pattern_test_iff)
qed

text \<open>An entry of type \<open>text/x-obj\<close> without a format token is sent as \<open>model/obj\<close>.\<close>

theorem obj_normalization_witness:
  "declared_format obj_entry (JObj [(''content'', JArr [obj_entry])]) = []
   \<and> obj_pattern_test (resolve_content_type [] obj_entry (req_contentType demo_request))
   \<and> fst (send_download (demo_env (JObj [(''content'', JArr [obj_entry])])) demo_request
            ''Report PDF'' (JObj [(''content'', JArr [obj_entry])]) obj_entry [104, 105])
     = Send [(''X-Cache'', ''MISS''), (''Content-Type'', ''model/obj''),
             (''Content-Disposition'',
                ''attachment; filename='' @ dquote @ ''abc_Report PDF.obj'' @ dquote),
             (''Content-Length'', ''2'')] [104, 105]"
proof -
  let ?sed = "JObj [(''content'', JArr [obj_entry])]"
  have 1: "declared_format obj_entry ?sed = []" by code_simp
  have 2: "obj_pattern_test (resolve_content_type [] obj_entry (req_contentType demo_request))"
    by code_simp
  have d: "or_empty (req_designId demo_request) = ''abc''" by code_simp
  have n: "show_nat (length [104, 105 :: byte]) = ''2''" by code_simp
  have "fst (send_download (demo_env ?sed) demo_request ''Report PDF'' ?sed obj_entry [104, 105])
     = Send [(''X-Cache'', ''MISS''), (''Content-Type'', ''model/obj''),
             (''Content-Disposition'',
                ''attachment; filename='' @ dquote
                @ or_empty (req_designId demo_request) @ ''_''
                @ (if ''Report PDF'' \<noteq> [] then ''Report PDF''
                   else requested_exportType demo_request) @ ''.obj'' @ dquote),
             (''Content-Length'', show_nat (length [104, 105 :: byte]))] [104, 105]"
    using obj_normalization[where picked = obj_entry and selectedExportData = "?sed"
        and rq = demo_request and environment = "demo_env ?sed" and nm = "''Report PDF''"
        and bytes = "[104, 105]"] 1 2
    by blast
  with 1 2 d n show ?thesis by simp
qed

text \<open>
  Claim C7 as stated fails twice. An entry of type \<open>text/x-obj\<close> that declares the format
  \<open>txt\<close> passes the pattern and is still sent as \<open>text/x-obj\<close>, with extension \<open>.txt\<close>;
  and \<open>application/object\<close>, which contains \<open>obj\<close> but not as a word of its own, is sent
  unchanged and without an extension although no format is declared.
\<close>

theorem obj_rewrite_needs_no_format_and_whole_word:
  "obj_pattern_test ''text/x-obj''
   \<and> fst (download_handler (demo_env (JObj [(''content'', JArr [txt_obj_entry])])) demo_request)
     = Send [(''X-Cache'', ''MISS''), (''Content-Type'', ''text/x-obj''),
             (''Content-Disposition'',
                ''attachment; filename='' @ dquote @ ''abc_Report PDF.txt'' @ dquote),
             (''Content-Length'', ''2'')] [104, 105]
   \<and> str_includes (toLowerCase ''application/object'') ''obj''
   \<and> fst (download_handler (demo_env (JObj [(''content'', JArr [object_entry])])) demo_request)
     = Send [(''X-Cache'', ''MISS''), (''Content-Type'', ''application/object''),
             (''Content-Disposition'',
                ''attachment; filename='' @ dquote @ ''abc_Report PDF'' @ dquote),
             (''Content-Length'', ''2'')] [104, 105]"
  by code_simp

section \<open>Fresh responses and the cache write\<close>

lemma fetch_download_no_write:
  "fetch_download environment ex = (r, tr) \<Longrightarrow> \<not> list_ex is_cache_write tr"
  by (auto simp: fetch_download_def split: if_splits sum.splits)

lemma deliver_export_send:
  assumes "deliver_export environment rq eid nm exportData = (Inr (Send hs bytes), tr)"
  shows "\<exists>sed picked pre post.
           send_download environment rq nm sed picked bytes = (Send hs bytes, post)
           \<and> tr = pre @ post \<and> \<not> list_ex is_cache_write pre"
proof -
  from assms obtain sed ex where
    d: "(case fetch_download environment ex of
                  (Inl e, tr) \<Rightarrow> (Inl e, tr)
                | (Inr (Inl failed), tr) \<Rightarrow> (Inr failed, tr)
                | (Inr (Inr None), tr) \<Rightarrow>
                    (Inr (Json 500 (ErrorBody ''No export content''
                            (Some ''No file content or URL returned by export'') None)), tr)
                | (Inr (Inr (Some bytes)), tr) \<Rightarrow>
                    (case send_download environment rq nm sed (pickedContent ex) bytes of
                       (resp, tr') \<Rightarrow> (Inr resp, tr @ tr'))) = (Inr (Send hs bytes), tr)"
    by (auto simp: deliver_export_def split: option.splits sum.splits if_splits)
  obtain r pre where f: "fetch_download environment ex = (r, pre)" by (cases "fetch_download environment ex")
  have nw: "\<not> list_ex is_cache_write pre" by (rule fetch_download_no_write[OF f])
  have nj: "r \<noteq> Inr (Inl (Send hs bytes))"
    using f by (auto simp: fetch_download_def split: if_splits sum.splits)
  from d f nj obtain b where rb: "r = Inr (Inr (Some b))"
    by (auto split: sum.splits option.splits)
  obtain resp post where s: "send_download environment rq nm sed (pickedContent ex) b = (resp, post)"
    by (cases "send_download environment rq nm sed (pickedContent ex) b")
  from d f rb s have e: "resp = Send hs bytes" "tr = pre @ post" by simp_all
  from send_download_shape[of environment rq nm sed "pickedContent ex" b] s e
  have "b = bytes" by simp
  with s e nw show ?thesis by blast
qed

lemma resolve_export_send:
  assumes "resolve_export environment rq = (Inr (Send hs bytes), tr)"
  shows "\<exists>nm sed picked pre post.
           send_download environment rq nm sed picked bytes = (Send hs bytes, post)
           \<and> tr = pre @ post \<and> \<not> list_ex is_cache_write pre"
proof -
  have "\<exists>eid nm exportData calls tr'.
          deliver_export environment rq eid nm exportData = (Inr (Send hs bytes), tr')
          \<and> tr = calls @ tr' \<and> \<not> list_ex is_cache_write calls"
  proof (cases "createSessionByTicket environment (endpoint_of rq)")
    case (Inl e)
    with assms show ?thesis by (simp add: resolve_export_def Let_def)
  next
    case (Inr sd)
    let ?calls = "\<lambda>pid eid. [CreateSession (endpoint_of rq),
        ComputeExports (endpoint_of rq) (sessionId sd)
          \<lparr> rq_parameters =
              [(pid, RENDER_DEPLOYMENT_URI @ ''/api/data/'' @ or_empty (req_designId rq))],
            rq_exports = [eid] \<rparr>]"
    from assms Inr obtain pid eid nm exportData tr' where
      "deliver_export environment rq eid nm exportData = (Inr (Send hs bytes), tr')"
      "tr = ?calls pid eid @ tr'"
      by (auto simp: resolve_export_def Let_def export_not_found_def
               split: sum.splits option.splits if_splits prod.splits)
    moreover have "\<not> list_ex is_cache_write (?calls pid eid)" by simp
    ultimately show ?thesis by blast
  qed
  then obtain eid nm exportData calls tr' where
    d: "deliver_export environment rq eid nm exportData = (Inr (Send hs bytes), tr')"
    and t: "tr = calls @ tr'" and c: "\<not> list_ex is_cache_write calls" by blast
  from deliver_export_send[OF d] obtain sed picked pre post where
    s: "send_download environment rq nm sed picked bytes = (Send hs bytes, post)"
       "tr' = pre @ post" "\<not> list_ex is_cache_write pre" by blast
  let ?pre = "calls @ pre"
  from s t c have "tr = ?pre @ post" "\<not> list_ex is_cache_write ?pre" by simp_all
  with s(1) show ?thesis by blast
qed

lemma download_handler_send:
  assumes "download_handler environment rq = (Send hs bytes, tr)"
    and "map_of hs ''X-Cache'' = Some ''MISS''"
  shows "present (req_designId rq) \<and> cache_missed environment rq \<and>
         (\<exists>nm sed picked pre post.
           send_download environment rq nm sed picked bytes = (Send hs bytes, post)
           \<and> tr = pre @ post \<and> \<not> list_ex is_cache_write pre)"
proof -
  have p: "present (req_designId rq)"
    using assms(1) by (auto simp: download_handler_def download_body_def split: if_splits)
  have nh: "\<And>cached buf. respond_hit cached buf \<noteq> Send hs bytes"
    using assms(2) by (auto simp: respond_hit_def)
  have cm: "cache_missed environment rq"
    using assms(1) p nh
    by (auto simp: download_handler_def download_body_def cache_missed_def
             split: if_splits sum.splits prod.splits option.splits)
  from assms(1) p nh obtain tr' where
    r: "resolve_export environment rq = (Inr (Send hs bytes), tr')"
    and t: "tr = probe_events rq @ tr'"
    by (auto simp: download_handler_def download_body_def probe_events_def
             split: if_splits sum.splits prod.splits option.splits)
  from resolve_export_send[OF r] obtain nm sed picked pre post where
    s: "send_download environment rq nm sed picked bytes = (Send hs bytes, post)"
       "tr' = pre @ post" "\<not> list_ex is_cache_write pre" by blast
  from s t have "tr = (probe_events rq @ pre) @ post"
    "\<not> list_ex is_cache_write (probe_events rq @ pre)"
    by (simp_all add: probe_events_def)
  with s(1) p cm show ?thesis by blast
qed

lemma fetch_download_put:
  "fetch_download (environment\<lparr>putCachedExport := put\<rparr>) ex = fetch_download environment ex"
  by (simp add: fetch_download_def)

lemma deliver_export_put:
  "fst (deliver_export (environment\<lparr>putCachedExport := put\<rparr>) rq eid nm exportData)
   = fst (deliver_export environment rq eid nm exportData)"
  by (simp add: deliver_export_def fetch_download_put send_download_shape
           split: option.splits sum.splits prod.splits)

lemma resolve_export_put:
  "fst (resolve_export (environment\<lparr>putCachedExport := put\<rparr>) rq)
   = fst (resolve_export environment rq)"
  by (simp add: resolve_export_def Let_def case_prod_beta deliver_export_put
           split: option.splits sum.splits)

lemma download_handler_put:
  "fst (download_handler (environment\<lparr>putCachedExport := put\<rparr>) rq)
   = fst (download_handler environment rq)"
proof -
  have b: "fst (download_body (environment\<lparr>putCachedExport := put\<rparr>) rq)
           = fst (download_body environment rq)"
    by (simp add: download_body_def case_prod_beta resolve_export_put
             split: option.splits sum.splits)
  then show ?thesis
    by (simp add: download_handler_def case_prod_beta split: sum.splits)
qed

lemma filter_writes_none: "\<not> list_ex is_cache_write pre \<Longrightarrow> filter is_cache_write pre = []"
  by (induction pre) auto

text \<open>
  Claim C5, as the code has it. A request that is answered from a fresh computation
  (the response carries \<open>X-Cache: MISS\<close>) and does not bypass the cache issues exactly
  one cache write, of the bytes sent, under the key made of the design id, the export
  type and the name filter of the request together with the content type that was sent;
  a write that fails leaves a warning in the log. With \<open>bypassCache\<close> set, no cache write
  is issued. In both cases the response is the same whatever the cache write does.
\<close>

theorem cache_write_on_fresh_success:
  assumes "download_handler environment rq = (Send headers bytes, tr)"
    and "map_of headers ''X-Cache'' = Some ''MISS''"
  shows "(\<not> req_bypassCache rq \<longrightarrow>
           (\<exists>ct filename.
              map_of headers ''Content-Type'' = Some ct
              \<and> map_of headers ''Content-Disposition''
                  = Some (''attachment; filename='' @ dquote @ filename @ dquote)
              \<and> filter is_cache_write tr = [CachePut (store_key rq ct) bytes ct filename]
              \<and> (\<forall>err. putCachedExport environment (store_key rq ct) bytes ct filename
                          = Some err
                    \<longrightarrow> ConsoleWarn (''Cache store failed: '' @ error_message err) \<in> set tr)))
         \<and> (req_bypassCache rq \<longrightarrow> filter is_cache_write tr = [])
         \<and> (\<forall>put. fst (download_handler (environment\<lparr>putCachedExport := put\<rparr>) rq)
                    = Send headers bytes)"
proof -
  from download_handler_send[OF assms(1,2)] obtain nm sed picked pre post where
    s: "send_download environment rq nm sed picked bytes = (Send headers bytes, post)"
    and t: "tr = pre @ post" and nw: "\<not> list_ex is_cache_write pre" by blast
  let ?ct = "sent_content_type rq sed picked"
  let ?fn = "sent_filename rq nm sed picked"
  from s have h: "headers = [(''X-Cache'', ''MISS''), (''Content-Type'', ?ct),
            (''Content-Disposition'', ''attachment; filename='' @ dquote @ ?fn @ dquote),
            (''Content-Length'', show_nat (length bytes))]"
    by (simp add: send_download_shape)
  have a: "\<not> req_bypassCache rq \<longrightarrow>
           (\<exists>ct filename.
              map_of headers ''Content-Type'' = Some ct
              \<and> map_of headers ''Content-Disposition''
                  = Some (''attachment; filename='' @ dquote @ filename @ dquote)
              \<and> filter is_cache_write tr = [CachePut (store_key rq ct) bytes ct filename]
              \<and> (\<forall>err. putCachedExport environment (store_key rq ct) bytes ct filename
                          = Some err
                    \<longrightarrow> ConsoleWarn (''Cache store failed: '' @ error_message err) \<in> set tr))"
  proof
    assume nb: "\<not> req_bypassCache rq"
    with s have p: "post = CachePut (store_key rq ?ct) bytes ?ct ?fn
        # (case putCachedExport environment (store_key rq ?ct) bytes ?ct ?fn of
             None \<Rightarrow> []
           | Some err \<Rightarrow> [ConsoleWarn (''Cache store failed: '' @ error_message err)])"
      by (simp add: send_download_shape)
    have 1: "map_of headers ''Content-Type'' = Some ?ct" by (simp add: h)
    have 2: "map_of headers ''Content-Disposition''
               = Some (''attachment; filename='' @ dquote @ ?fn @ dquote)" by (simp add: h)
    have 3: "filter is_cache_write tr = [CachePut (store_key rq ?ct) bytes ?ct ?fn]"
      using t p filter_writes_none[OF nw] by (simp split: option.splits)
    have 4: "\<forall>err. putCachedExport environment (store_key rq ?ct) bytes ?ct ?fn = Some err
                   \<longrightarrow> ConsoleWarn (''Cache store failed: '' @ error_message err) \<in> set tr"
      using t p by simp
    from 1 2 3 4 show "\<exists>ct filename.
              map_of headers ''Content-Type'' = Some ct
              \<and> map_of headers ''Content-Disposition''
                  = Some (''attachment; filename='' @ dquote @ filename @ dquote)
              \<and> filter is_cache_write tr = [CachePut (store_key rq ct) bytes ct filename]
              \<and> (\<forall>err. putCachedExport environment (store_key rq ct) bytes ct filename
                          = Some err
                    \<longrightarrow> ConsoleWarn (''Cache store failed: '' @ error_message err) \<in> set tr)"
      by blast
  qed
  have b: "req_bypassCache rq \<longrightarrow> filter is_cache_write tr = []"
  proof
    assume "req_bypassCache rq"
    with s have "post = []" by (simp add: send_download_shape)
    with t filter_writes_none[OF nw] show "filter is_cache_write tr = []" by simp
  qed
  have c: "\<forall>put. fst (download_handler (environment\<lparr>putCachedExport := put\<rparr>) rq)
                      = Send headers bytes"
    using download_handler_put[where environment = environment and rq = rq] assms(1) by simp
  from a b c show ?thesis by blast
qed

text \<open>
  The cache rejects the write: the write was issued, the warning is in the log, and the
  response is the one sent when the write succeeds.
\<close>

theorem cache_write_on_fresh_success_witness:
  "filter is_cache_write (snd (download_handler failing_put_env demo_request))
     = [CachePut (store_key demo_request ''application/pdf'') [37, 80, 68, 70]
          ''application/pdf'' ''abc_Report PDF.pdf'']
   \<and> ConsoleWarn ''Cache store failed: quota exceeded''
       \<in> set (snd (download_handler failing_put_env demo_request))
   \<and> fst (download_handler failing_put_env demo_request)
     = fst (download_handler (demo_env pdf_by_href) demo_request)"
proof -
  let ?hs = "[(''X-Cache'', ''MISS''), (''Content-Type'', ''application/pdf''),
            (''Content-Disposition'',
               ''attachment; filename='' @ dquote @ ''abc_Report PDF.pdf'' @ dquote),
            (''Content-Length'', ''4'')]"
  let ?tr = "snd (download_handler failing_put_env demo_request)"
  have f: "fst (download_handler failing_put_env demo_request) = Send ?hs [37, 80, 68, 70]"
    by code_simp
  have 1: "download_handler failing_put_env demo_request = (Send ?hs [37, 80, 68, 70], ?tr)"
    using f by (simp add: prod_eq_iff)
  have 2: "map_of ?hs ''X-Cache'' = Some ''MISS''" by simp
  have a: "filter is_cache_write ?tr
     = [CachePut (store_key demo_request ''application/pdf'') [37, 80, 68, 70]
          ''application/pdf'' ''abc_Report PDF.pdf'']" by code_simp
  have b: "ConsoleWarn ''Cache store failed: quota exceeded'' \<in> set ?tr" by code_simp
  have e: "failing_put_env \<lparr> putCachedExport := putCachedExport (demo_env pdf_by_href) \<rparr>
             = demo_env pdf_by_href"
    by (simp add: failing_put_env_def demo_env_def)
  from cache_write_on_fresh_success[OF 1 2] have
    "\<forall>put. fst (download_handler (failing_put_env\<lparr>putCachedExport := put\<rparr>) demo_request)
             = Send ?hs [37, 80, 68, 70]" by blast
  then have "fst (download_handler
       (failing_put_env\<lparr>putCachedExport := putCachedExport (demo_env pdf_by_href)\<rparr>) demo_request)
             = Send ?hs [37, 80, 68, 70]" by blast
  with e f have c: "fst (download_handler failing_put_env demo_request)
     = fst (download_handler (demo_env pdf_by_href) demo_request)" by simp
  from a b c show ?thesis by blast
qed

text \<open>
  Claim C5 as stated fails for \<open>bypassCache = true\<close>: the request succeeds from a fresh
  computation and no cache write is among its calls.
\<close>

theorem bypass_skips_cache_write:
  "download_handler (demo_env pdf_by_href) bypass_request =
     (Send [(''X-Cache'', ''MISS''), (''Content-Type'', ''application/pdf''),
            (''Content-Disposition'',
               ''attachment; filename='' @ dquote @ ''abc_Report PDF.pdf'' @ dquote),
            (''Content-Length'', ''4'')] [37, 80, 68, 70],
      [CreateSession (endpoint_of bypass_request),
       ComputeExports (endpoint_of bypass_request) ''sess-1''
         \<lparr> rq_parameters = [(''p1'', ''https://mongo-sd-server.onrender.com/api/data/abc'')],
           rq_exports = [''e1''] \<rparr>,
       Fetch (JStr ''https://cdn.example/report.pdf'')])
   \<and> req_bypassCache bypass_request
   \<and> filter is_cache_write (snd (download_handler (demo_env pdf_by_href) bypass_request)) = []"
  by code_simp

section \<open>Repeating a request\<close>

lemma populate_append: "populate (xs @ ys) st = populate ys (populate xs st)"
proof (induction xs arbitrary: st)
  case Nil
  then show ?case by simp
next
  case (Cons ev xs)
  show ?case by (cases ev) (simp_all add: Cons.IH)
qed

lemma populate_no_write: "\<not> list_ex is_cache_write pre \<Longrightarrow> populate pre st = st"
proof (induction pre arbitrary: st)
  case Nil
  then show ?case by simp
next
  case (Cons ev pre)
  then show ?case by (cases ev) simp_all
qed

lemma with_store_simps:
  "getCachedExport (with_store st environment) = store_get st"
  "putCachedExport (with_store st environment) = (\<lambda>k bytes ct filename. None)"
  by (simp_all add: with_store_def)

lemma store_key_probe_key:
  "req_contentType rq = Some ct \<Longrightarrow> store_key rq ct = probe_key rq"
  by (simp add: store_key_def probe_key_def)

lemma store_key_other:
  "req_contentType rq \<noteq> Some ct \<Longrightarrow> store_key rq ct \<noteq> probe_key rq"
  by (auto simp: store_key_def probe_key_def)

text \<open>
  Claim C4, as the code has it. Over a cache that answers a lookup exactly for the key an
  entry was written under, let a request that does not bypass the cache be answered from
  a fresh computation, and let its cache write be carried out. If the request names a
  content type and that content type is the one that was sent, the repeated request is
  answered from the cache: the same bytes, the same content type, file name and length,
  \<open>X-Cache: HIT\<close>, and no call but the lookup. If the content type of the request is not
  the one that was sent (in particular when the request names none), the write went
  under another key and the repeated request passes the probe again.
\<close>

theorem repeat_served_from_cache:
  assumes "\<not> req_bypassCache rq"
    and "download_handler (with_store st environment) rq = (Send headers bytes, tr)"
    and "map_of headers ''X-Cache'' = Some ''MISS''"
  shows "(present (req_contentType rq)
          \<and> req_contentType rq = map_of headers ''Content-Type'' \<longrightarrow>
           download_handler (with_store (populate tr st) environment) rq =
             (Send ((''X-Cache'', ''HIT'') # tl headers) bytes, [CacheGet (probe_key rq)]))
         \<and> (req_contentType rq \<noteq> map_of headers ''Content-Type'' \<longrightarrow>
              cache_missed (with_store (populate tr st) environment) rq)"
proof -
  let ?env = "with_store st environment"
  from download_handler_send[OF assms(2,3)] obtain nm sed picked pre post where
    pd: "present (req_designId rq)"
    and cm: "cache_missed ?env rq"
    and s: "send_download ?env rq nm sed picked bytes = (Send headers bytes, post)"
    and t: "tr = pre @ post" and nw: "\<not> list_ex is_cache_write pre" by blast
  let ?ct = "sent_content_type rq sed picked"
  let ?fn = "sent_filename rq nm sed picked"
  from s assms(1) have h: "headers = [(''X-Cache'', ''MISS''), (''Content-Type'', ?ct),
            (''Content-Disposition'', ''attachment; filename='' @ dquote @ ?fn @ dquote),
            (''Content-Length'', show_nat (length bytes))]"
    and p: "post = [CachePut (store_key rq ?ct) bytes ?ct ?fn]"
    by (simp_all add: send_download_shape with_store_simps)
  have pop: "populate tr st = (store_key rq ?ct, bytes, ?ct, ?fn) # st"
    using t p populate_no_write[OF nw] by (simp add: populate_append)
  have fnne: "?fn \<noteq> []"
    by (simp add: sent_filename_def Let_def)
  have c: "map_of headers ''Content-Type'' = Some ?ct" by (simp add: h)
  have empty: "map_of st (probe_key rq) = None"
    using cm assms(1)
    by (auto simp: cache_missed_def with_store_simps store_get_def split: option.splits)
  have hit: "present (req_contentType rq) \<and> req_contentType rq = map_of headers ''Content-Type'' \<longrightarrow>
           download_handler (with_store (populate tr st) environment) rq =
             (Send ((''X-Cache'', ''HIT'') # tl headers) bytes, [CacheGet (probe_key rq)])"
  proof
    assume a: "present (req_contentType rq) \<and> req_contentType rq = map_of headers ''Content-Type''"
    with c have rc: "req_contentType rq = Some ?ct" and ctne: "?ct \<noteq> []" by auto
    have k: "store_key rq ?ct = probe_key rq" by (rule store_key_probe_key[OF rc])
    have g: "store_get (populate tr st) (probe_key rq) =
               Inr \<lparr> hit = True, buffer = Some bytes, cached_contentType = Some ?ct,
                     cached_filename = Some ?fn \<rparr>"
      by (simp add: store_get_def pop k)
    show "download_handler (with_store (populate tr st) environment) rq =
             (Send ((''X-Cache'', ''HIT'') # tl headers) bytes, [CacheGet (probe_key rq)])"
      using pd assms(1) g ctne fnne
      by (simp add: download_handler_def download_body_def with_store_simps respond_hit_def
            or_empty_def h)
  qed
  have miss: "req_contentType rq \<noteq> map_of headers ''Content-Type'' \<longrightarrow>
              cache_missed (with_store (populate tr st) environment) rq"
  proof
    assume "req_contentType rq \<noteq> map_of headers ''Content-Type''"
    with c have "store_key rq ?ct \<noteq> probe_key rq" using store_key_other[of rq ?ct] by simp
    with empty have "map_of (populate tr st) (probe_key rq) = None" by (simp add: pop)
    then show "cache_missed (with_store (populate tr st) environment) rq"
      by (simp add: cache_missed_def with_store_simps store_get_def)
  qed
  from hit miss show ?thesis by blast
qed

text \<open>A request that asks for \<open>application/pdf\<close> and is sent just that: the repeat is a hit.\<close>

theorem repeat_served_from_cache_witness:
  "download_handler
     (with_store
        (populate (snd (download_handler (with_store [] (demo_env pdf_by_href)) pdf_request)) [])
        (demo_env pdf_by_href))
     pdf_request
   = (Send [(''X-Cache'', ''HIT''), (''Content-Type'', ''application/pdf''),
            (''Content-Disposition'',
               ''attachment; filename='' @ dquote @ ''abc_Report PDF.pdf'' @ dquote),
            (''Content-Length'', ''4'')] [37, 80, 68, 70],
      [CacheGet (probe_key pdf_request)])"
proof -
  let ?hs = "[(''X-Cache'', ''MISS''), (''Content-Type'', ''application/pdf''),
            (''Content-Disposition'',
               ''attachment; filename='' @ dquote @ ''abc_Report PDF.pdf'' @ dquote),
            (''Content-Length'', ''4'')]"
  let ?tr = "snd (download_handler (with_store [] (demo_env pdf_by_href)) pdf_request)"
  have 1: "\<not> req_bypassCache pdf_request" by code_simp
  have f: "fst (download_handler (with_store [] (demo_env pdf_by_href)) pdf_request)
             = Send ?hs [37, 80, 68, 70]" by code_simp
  have 2: "download_handler (with_store [] (demo_env pdf_by_href)) pdf_request
             = (Send ?hs [37, 80, 68, 70], ?tr)"
    using f by (simp add: prod_eq_iff)
  have 3: "map_of ?hs ''X-Cache'' = Some ''MISS''" by simp
  have 4: "present (req_contentType pdf_request)
           \<and> req_contentType pdf_request = map_of ?hs ''Content-Type''" by code_simp
  from repeat_served_from_cache[OF 1 2 3] 4 show ?thesis by simp
qed

text \<open>
  Claim C4 as stated fails. The request names no content type and the response is sent
  as \<open>application/pdf\<close>: the entry is written under a key with that content type, the
  identical request looks up a key without one, and the second call is again a miss that
  opens a session, computes and fetches.
\<close>

theorem repeat_without_content_type_misses:
  "fst (download_handler (with_store [] (demo_env pdf_by_href)) demo_request)
     = Send [(''X-Cache'', ''MISS''), (''Content-Type'', ''application/pdf''),
             (''Content-Disposition'',
                ''attachment; filename='' @ dquote @ ''abc_Report PDF.pdf'' @ dquote),
             (''Content-Length'', ''4'')] [37, 80, 68, 70]
   \<and> populate (snd (download_handler (with_store [] (demo_env pdf_by_href)) demo_request)) []
     = [(store_key demo_request ''application/pdf'', [37, 80, 68, 70], ''application/pdf'',
         ''abc_Report PDF.pdf'')]
   \<and> download_handler
       (with_store
          (populate (snd (download_handler (with_store [] (demo_env pdf_by_href)) demo_request)) [])
          (demo_env pdf_by_href))
       demo_request
     = (Send [(''X-Cache'', ''MISS''), (''Content-Type'', ''application/pdf''),
             (''Content-Disposition'',
                ''attachment; filename='' @ dquote @ ''abc_Report PDF.pdf'' @ dquote),
             (''Content-Length'', ''4'')] [37, 80, 68, 70],
        [CacheGet (probe_key demo_request),
         CreateSession (endpoint_of demo_request),
         ComputeExports (endpoint_of demo_request) ''sess-1''
           \<lparr> rq_parameters = [(''p1'', ''https://mongo-sd-server.onrender.com/api/data/abc'')],
             rq_exports = [''e1''] \<rparr>,
         Fetch (JStr ''https://cdn.example/report.pdf''),
         CachePut (store_key demo_request ''application/pdf'') [37, 80, 68, 70]
           ''application/pdf'' ''abc_Report PDF.pdf''])"
  by code_simp

end
